theory Spec2Isabelle
  imports Main "HOL-Library.Word"
begin

section \<open>Data model of copycat/store.go\<close>

text \<open>
  The file \<^verbatim>\<open>store.go\<close> copies every message of a source inbox into each destination
  inbox that lacks it. It talks to three outside parties: IMAP servers (package
  \<^verbatim>\<open>imap\<close>), a memcached server (package \<^verbatim>\<open>memcache\<close>) and the gob encoder. None of
  them is part of the repository, so every call to them is a field of the record
  \<open>io\<close> below: the answer the outside world gives to that call.

  Go values are modelled as follows. A \<^verbatim>\<open>[]byte\<close> and a \<^verbatim>\<open>string\<close> are a \<open>string\<close>; a
  \<^verbatim>\<open>uint32\<close> is a 32-bit word; a Go \<^verbatim>\<open>error\<close> is a value of \<open>error\<close>, and a nil error
  is \<open>None\<close>; a pointer that may be nil is an \<open>option\<close>; a pair \<^verbatim>\<open>(value, err)\<close> whose
  value is only read when \<^verbatim>\<open>err == nil\<close> is a sum with \<open>Inl\<close> for the error.
  \<^verbatim>\<open>imap.FieldMap\<close> is \<^verbatim>\<open>map[string]Field\<close>: an association list read through
  \<open>map_of\<close>, whose \<^verbatim>\<open>len\<close> is the number of distinct keys. A connection
  (\<^verbatim>\<open>*imap.Client\<close>) and a channel are named by a number.
\<close>

type_synonym uint32 = "32 word"
type_synonym bytes = string
type_synonym conn = nat
type_synonym chan = nat

datatype error = Error string

type_synonym Field = bytes
type_synonym FieldMap = "(string \<times> Field) list"

definition len :: "FieldMap \<Rightarrow> nat" where
  "len m = length (remdups (map fst m))"

text \<open>\<^verbatim>\<open>imap.AsBytes\<close> of the value stored under a key of a \<^verbatim>\<open>FieldMap\<close>: a key that is
  not in the map reads as nil, and the bytes of nil are empty.\<close>

definition AsBytes :: "Field option \<Rightarrow> bytes" where
  "AsBytes f = (case f of None \<Rightarrow> [] | Some b \<Rightarrow> b)"

text \<open>\<^verbatim>\<open>mail.Header\<close> is \<^verbatim>\<open>map[string][]string\<close>; \<^verbatim>\<open>Get\<close> returns the first value stored
  under the key and the empty string when there is none.\<close>

type_synonym Header = "(string \<times> string list) list"

definition Header_Get :: "Header \<Rightarrow> string \<Rightarrow> string" where
  "Header_Get h key = (case map_of h key of None \<Rightarrow> [] | Some [] \<Rightarrow> [] | Some (v # vs) \<Rightarrow> v)"

text \<open>\<^verbatim>\<open>memcache.Item\<close>, of which the code uses \<^verbatim>\<open>Key\<close> and \<^verbatim>\<open>Value\<close> (here \<open>ItemValue\<close>:
  \<open>Value\<close> is the field of \<open>WorkRequest\<close>).\<close>

record Item =
  Key :: string
  ItemValue :: bytes

text \<open>What \<^verbatim>\<open>rsp.MessageInfo()\<close> gives for one entry of \<^verbatim>\<open>cmd.Data\<close> of the listing:
  the attributes and the UID (here \<open>MsgUID\<close>).\<close>

record MessageInfo =
  Attrs :: FieldMap
  MsgUID :: uint32

text \<open>\<^verbatim>\<open>WorkRequest\<close> is declared in another file of the package; \<^verbatim>\<open>store.go\<close> builds it
  with the three fields \<^verbatim>\<open>Value\<close>, \<^verbatim>\<open>Header\<close> and \<^verbatim>\<open>UID\<close>.\<close>

record WorkRequest =
  Value :: string
  Header :: string
  UID :: uint32

text \<open>\<^verbatim>\<open>fetchRequest\<close> (store.go, line 127); its field \<^verbatim>\<open>UID\<close> is \<open>ReqUID\<close> here.\<close>

record fetchRequest =
  MessageId :: string
  ReqUID :: uint32
  Response :: chan

text \<open>
  The answers of the outside world. \<open>'inbox\<close> stands for \<^verbatim>\<open>InboxInfo\<close>, a struct declared
  elsewhere in the package and only passed on by this file. \<open>GetAllMessages\<close> and
  \<open>GetConnection\<close> are functions of the package that are not in \<^verbatim>\<open>store.go\<close>; the result of
  \<open>GetAllMessages\<close> is the error or \<^verbatim>\<open>cmd.Data\<close>. \<open>UIDSearch\<close>, \<open>UIDFetch\<close> and \<open>Append\<close>
  stand for the call followed by \<^verbatim>\<open>imap.Wait\<close>; a search answers with \<^verbatim>\<open>cmd.Data\<close> as the
  list of the \<^verbatim>\<open>SearchResults()\<close> of its entries, a fetch with \<^verbatim>\<open>cmd.Data\<close> as the list of
  the \<^verbatim>\<open>MessageInfo().Attrs\<close> of its entries. \<open>cache_Get\<close> returns the pair
  \<^verbatim>\<open>(*Item, error)\<close> of \<^verbatim>\<open>memcache.Client.Get\<close> as it is, because the code reads the
  item when the error is not nil. \<open>Receive ch\<close> is what arrives on the response channel
  \<open>ch\<close> that a store worker reads: \<open>None\<close> when nothing is ever sent on it.
\<close>

record 'inbox io =
  GetAllMessages :: "'inbox \<Rightarrow> error + MessageInfo list"
  GetConnection :: "'inbox \<Rightarrow> bool \<Rightarrow> error + conn"
  ReadMessage :: "bytes \<Rightarrow> Header option"
  UIDSearch :: "conn \<Rightarrow> string list \<Rightarrow> error + uint32 list list"
  UIDFetch :: "conn \<Rightarrow> uint32 \<Rightarrow> string list \<Rightarrow> error + FieldMap list"
  Append :: "conn \<Rightarrow> string \<Rightarrow> string list \<Rightarrow> Field option \<Rightarrow> bytes \<Rightarrow> error option"
  cache_Get :: "string \<Rightarrow> Item option \<times> error option"
  cache_Add :: "Item \<Rightarrow> error option"
  gob_Encode :: "FieldMap \<Rightarrow> error + bytes"
  gob_Decode :: "bytes \<Rightarrow> error + FieldMap"
  Receive :: "chan \<Rightarrow> FieldMap option"

text \<open>
  What a goroutine does to the outside, in program order. \<open>Log\<close> carries the format
  string of the \<^verbatim>\<open>log.Printf\<close> call.
\<close>

datatype 'inbox event =
    Log string
  | Connect 'inbox bool
  | Close conn bool
  | WgDone
  | Search conn "string list"
  | SendFetch fetchRequest
  | Recv chan FieldMap
  | AppendMsg conn string "string list" "Field option" bytes
  | CacheGet string
  | Respond chan FieldMap
  | Fetch conn uint32 "string list"
  | CacheAdd Item
  | SendWork chan WorkRequest

text \<open>How one pass through a loop body ends: at the next iteration (\<^verbatim>\<open>continue\<close> or the
  end of the body), in a panic, or blocked for ever on a channel. \<open>Await fr\<close> is the point
  where a store worker has built the fetch request \<open>fr\<close> and hands it over.\<close>

datatype step_end = Continue | Panic | Blocked | Await fetchRequest

section \<open>serialize and deserialize (lines 198 to 218)\<close>

definition serialize :: "'inbox io \<Rightarrow> FieldMap \<Rightarrow> error + bytes" where
  "serialize io src =
     (case gob_Encode io src of
        Inl err \<Rightarrow> Inl err
      | Inr buf \<Rightarrow> Inr buf)"

definition deserialize :: "'inbox io \<Rightarrow> bytes \<Rightarrow> error + FieldMap" where
  "deserialize io src =
     (case gob_Decode io src of
        Inl err \<Rightarrow> Inl err
      | Inr dst \<Rightarrow> Inr dst)"

section \<open>fetchEmails (lines 135 to 196)\<close>

text \<open>
  Lines 149 to 163, the cache lookup of one request. The branch is entered when
  \<^verbatim>\<open>err != nil\<close>. Inside it \<^verbatim>\<open>msgBytes.Value\<close> is read: with a nil \<^verbatim>\<open>msgBytes\<close> that is
  a nil pointer dereference, a panic. The result is the events and \<open>Some\<close> of how the
  iteration ended, or \<open>None\<close> when control reaches line 165.
\<close>

definition fetch_cached :: "'inbox io \<Rightarrow> fetchRequest \<Rightarrow> 'inbox event list \<times> step_end option" where
  "fetch_cached io request =
     (case cache_Get io (MessageId request) of (msgBytes, err) \<Rightarrow>
        if err \<noteq> None then
          (case msgBytes of
             None \<Rightarrow> ([CacheGet (MessageId request)], Some Panic)
           | Some item \<Rightarrow>
               (case (case deserialize io (ItemValue item) of
                        Inl err \<Rightarrow>
                          ([], [Log ''Problems deserializing memcache value: %s. Pulling message from src''])
                      | Inr decoded \<Rightarrow> (decoded, []))
                of (msgFields, logged) \<Rightarrow>
                  if len msgFields > 0
                  then (CacheGet (MessageId request) # logged @ [Respond (Response request) msgFields],
                        Some Continue)
                  else (CacheGet (MessageId request) # logged, None)))
        else ([CacheGet (MessageId request)], None))"

text \<open>Lines 165 to 194, the fetch from the source and the write to the cache.\<close>

definition fetch_live :: "'inbox io \<Rightarrow> conn \<Rightarrow> fetchRequest \<Rightarrow> 'inbox event list \<times> step_end" where
  "fetch_live io c request =
     (case UIDFetch io c (ReqUID request) [''INTERNALDATE'', ''BODY[]''] of
        Inl err \<Rightarrow>
          ([Fetch c (ReqUID request) [''INTERNALDATE'', ''BODY[]''],
            Log ''Unable to fetch message (%s) from src: %s''], Continue)
      | Inr data \<Rightarrow>
          (case data of
             [] \<Rightarrow>
               ([Fetch c (ReqUID request) [''INTERNALDATE'', ''BODY[]''],
                 Log ''Unable to fetch message (%s) from src: NO DATA''], Continue)
           | msgFields # rest \<Rightarrow>
               (case serialize io msgFields of
                  Inl err \<Rightarrow>
                    ([Fetch c (ReqUID request) [''INTERNALDATE'', ''BODY[]''],
                      Respond (Response request) msgFields,
                      Log ''Unable to serialize message (%s): %s''], Continue)
                | Inr msgGob \<Rightarrow>
                    (let cacheItem = \<lparr>Key = MessageId request, ItemValue = msgGob\<rparr> in
                     case cache_Add io cacheItem of
                       Some err \<Rightarrow>
                         ([Fetch c (ReqUID request) [''INTERNALDATE'', ''BODY[]''],
                           Respond (Response request) msgFields,
                           CacheAdd cacheItem,
                           Log ''Unable to add message (%s) to cache: %s''], Continue)
                     | None \<Rightarrow>
                         ([Fetch c (ReqUID request) [''INTERNALDATE'', ''BODY[]''],
                           Respond (Response request) msgFields,
                           CacheAdd cacheItem], Continue)))))"

text \<open>The body of the loop of line 147 for one request.\<close>

definition fetchEmails_request :: "'inbox io \<Rightarrow> conn \<Rightarrow> fetchRequest \<Rightarrow> 'inbox event list \<times> step_end" where
  "fetchEmails_request io c request =
     (case fetch_cached io request of
        (ev, Some e) \<Rightarrow> (ev, e)
      | (ev, None) \<Rightarrow> (case fetch_live io c request of (ev', e) \<Rightarrow> (ev @ ev', e)))"

text \<open>
  The loop of line 147 over the requests the worker takes from the channel until the
  channel is closed, each with the answers of the outside world during that iteration.
  The result \<open>Continue\<close> says that the loop was left at the closed channel.
\<close>

fun fetchEmails_loop :: "conn \<Rightarrow> ('inbox io \<times> fetchRequest) list \<Rightarrow> 'inbox event list \<times> step_end" where
  "fetchEmails_loop c [] = ([], Continue)"
| "fetchEmails_loop c ((io, request) # rest) =
     (case fetchEmails_request io c request of
        (ev, Continue) \<Rightarrow> (case fetchEmails_loop c rest of (ev', e) \<Rightarrow> (ev @ ev', e))
      | (ev, e) \<Rightarrow> (ev, e))"

text \<open>
  The whole worker. The deferred \<^verbatim>\<open>wg.Done()\<close> runs when the function returns and when
  it panics. \<open>Continue\<close> says that the function returned.
\<close>

definition fetchEmails :: "'inbox io \<Rightarrow> 'inbox \<Rightarrow> ('inbox io \<times> fetchRequest) list \<Rightarrow> 'inbox event list \<times> step_end" where
  "fetchEmails io src requests =
     (case GetConnection io src True of
        Inl err \<Rightarrow>
          ([Connect src True, Log ''Unable to connect to source inbox: %s'', WgDone], Continue)
      | Inr c \<Rightarrow>
          (case fetchEmails_loop c requests of
             (ev, Continue) \<Rightarrow> (Connect src True # ev @ [WgDone], Continue)
           | (ev, Panic) \<Rightarrow> (Connect src True # ev @ [WgDone], Panic)
           | (ev, e) \<Rightarrow> (Connect src True # ev, e)))"

section \<open>checkAndStoreMessages (lines 78 to 125)\<close>

text \<open>
  Lines 89 to 105: the search in the destination and, when it finds nothing, the fetch
  request. \<open>response\<close> is the channel that \<^verbatim>\<open>make\<close> returns at line 103.
  \<^verbatim>\<open>cmd.Data[0]\<close> on an empty \<^verbatim>\<open>cmd.Data\<close> is an index out of range, a panic.
\<close>

definition store_search :: "'inbox io \<Rightarrow> conn \<Rightarrow> chan \<Rightarrow> WorkRequest \<Rightarrow> 'inbox event list \<times> step_end" where
  "store_search io dstConn response request =
     (case UIDSearch io dstConn [''HEADER'', Header request, Value request] of
        Inl err \<Rightarrow>
          ([Log ''checking and storing (%s)'',
            Search dstConn [''HEADER'', Header request, Value request],
            Log ''Unable to search for message (%s): %s''], Continue)
      | Inr data \<Rightarrow>
          (case data of
             [] \<Rightarrow>
               ([Log ''checking and storing (%s)'',
                 Search dstConn [''HEADER'', Header request, Value request]], Panic)
           | results # others \<Rightarrow>
               if length results = 0 then
                 (let fr = \<lparr>MessageId = Value request, ReqUID = UID request, Response = response\<rparr> in
                  ([Log ''checking and storing (%s)'',
                    Search dstConn [''HEADER'', Header request, Value request],
                    SendFetch fr], Await fr))
               else
                 ([Log ''checking and storing (%s)'',
                   Search dstConn [''HEADER'', Header request, Value request]], Continue)))"

text \<open>Lines 109 to 119: what the worker does with the response \<open>attrs\<close>. The date is
  passed as the field it is read from.\<close>

definition store_append :: "'inbox io \<Rightarrow> conn \<Rightarrow> WorkRequest \<Rightarrow> FieldMap \<Rightarrow> 'inbox event list" where
  "store_append io dstConn request attrs =
     (if len attrs = 0 then [Log ''No data found in message fetch request (%s)'']
      else
        (let msgDate = map_of attrs ''INTERNALDATE'';
             body = AsBytes (map_of attrs ''BODY[]'')
         in case Append io dstConn ''INBOX'' [''UnSeen''] msgDate body of
              Some err \<Rightarrow>
                [AppendMsg dstConn ''INBOX'' [''UnSeen''] msgDate body,
                 Log ''Problems removing message from dst: %s'']
            | None \<Rightarrow> [AppendMsg dstConn ''INBOX'' [''UnSeen''] msgDate body]))"

text \<open>The body of the loop of line 88 for one request. The receive of line 108 blocks
  for ever when nothing is sent on the response channel.\<close>

definition checkAndStoreMessages_request :: "'inbox io \<Rightarrow> conn \<Rightarrow> chan \<Rightarrow> WorkRequest \<Rightarrow> 'inbox event list \<times> step_end" where
  "checkAndStoreMessages_request io dstConn response request =
     (case store_search io dstConn response request of
        (ev, Await fr) \<Rightarrow>
          (case Receive io (Response fr) of
             None \<Rightarrow> (ev, Blocked)
           | Some attrs \<Rightarrow>
               (ev @ Recv (Response fr) attrs # store_append io dstConn request attrs, Continue))
      | (ev, e) \<Rightarrow> (ev, e))"

fun checkAndStoreMessages_loop :: "conn \<Rightarrow> ('inbox io \<times> chan \<times> WorkRequest) list \<Rightarrow> 'inbox event list \<times> step_end" where
  "checkAndStoreMessages_loop dstConn [] = ([], Continue)"
| "checkAndStoreMessages_loop dstConn ((io, response, request) # rest) =
     (case checkAndStoreMessages_request io dstConn response request of
        (ev, Continue) \<Rightarrow> (case checkAndStoreMessages_loop dstConn rest of (ev', e) \<Rightarrow> (ev @ ev', e))
      | (ev, e) \<Rightarrow> (ev, e))"

text \<open>
  The whole worker. The deferred calls run last in, first out, when the function returns
  and when it panics: \<^verbatim>\<open>dstConn.Close(true)\<close>, then \<^verbatim>\<open>wg.Done()\<close>. A worker that is
  blocked never reaches them.
\<close>

definition checkAndStoreMessages :: "'inbox io \<Rightarrow> 'inbox \<Rightarrow> ('inbox io \<times> chan \<times> WorkRequest) list \<Rightarrow> 'inbox event list \<times> step_end" where
  "checkAndStoreMessages io dst requests =
     (case GetConnection io dst False of
        Inl err \<Rightarrow>
          ([Connect dst False, Log ''Unable to connect to destination: %s'', WgDone], Continue)
      | Inr dstConn \<Rightarrow>
          (case checkAndStoreMessages_loop dstConn requests of
             (ev, Continue) \<Rightarrow>
               (Connect dst False # ev @ [Log ''storer complete!'', Close dstConn True, WgDone],
                Continue)
           | (ev, Panic) \<Rightarrow> (Connect dst False # ev @ [Close dstConn True, WgDone], Panic)
           | (ev, e) \<Rightarrow> (Connect dst False # ev, e)))"

section \<open>SearchAndStore: building and sending the requests (lines 47 to 60)\<close>

text \<open>Lines 49 to 55: the request built for one entry of the listing, \<open>None\<close> when
  \<^verbatim>\<open>mail.ReadMessage\<close> returns a nil message.\<close>

definition storeRequest_of :: "'inbox io \<Rightarrow> MessageInfo \<Rightarrow> WorkRequest option" where
  "storeRequest_of io rsp =
     (let header = AsBytes (map_of (Attrs rsp) ''RFC822.HEADER'') in
      case ReadMessage io header of
        None \<Rightarrow> None
      | Some msg \<Rightarrow>
          (let header = ''Message-Id'';
               value = Header_Get msg header
           in Some \<lparr>Value = value, Header = header, UID = MsgUID rsp\<rparr>))"

text \<open>The loop of line 48 over \<^verbatim>\<open>cmd.Data\<close>, with the inner loop of line 56 over
  \<^verbatim>\<open>dstsStoreRequests\<close>: the sends of the orchestrator in program order.\<close>

fun send_requests :: "'inbox io \<Rightarrow> chan list \<Rightarrow> MessageInfo list \<Rightarrow> 'inbox event list" where
  "send_requests io dstsStoreRequests [] = []"
| "send_requests io dstsStoreRequests (rsp # rest) =
     (case storeRequest_of io rsp of
        None \<Rightarrow> []
      | Some storeRequest \<Rightarrow>
          map (\<lambda>storeRequests. SendWork storeRequests storeRequest) dstsStoreRequests)
     @ send_requests io dstsStoreRequests rest"

section \<open>Reading a trace\<close>

fun responses :: "'inbox event list \<Rightarrow> (chan \<times> FieldMap) list" where
  "responses [] = []"
| "responses (Respond ch m # ev) = (ch, m) # responses ev"
| "responses (e # ev) = responses ev"

fun fetches :: "'inbox event list \<Rightarrow> uint32 list" where
  "fetches [] = []"
| "fetches (Fetch c uid names # ev) = uid # fetches ev"
| "fetches (e # ev) = fetches ev"

fun appends :: "'inbox event list \<Rightarrow> (conn \<times> bytes) list" where
  "appends [] = []"
| "appends (AppendMsg c mbox flags date body # ev) = (c, body) # appends ev"
| "appends (e # ev) = appends ev"

fun searches :: "'inbox event list \<Rightarrow> (conn \<times> string list) list" where
  "searches [] = []"
| "searches (Search c q # ev) = (c, q) # searches ev"
| "searches (e # ev) = searches ev"

fun closes :: "'inbox event list \<Rightarrow> (conn \<times> bool) list" where
  "closes [] = []"
| "closes (Close c expunge # ev) = (c, expunge) # closes ev"
| "closes (e # ev) = closes ev"

fun logs :: "'inbox event list \<Rightarrow> string list" where
  "logs [] = []"
| "logs (Log s # ev) = s # logs ev"
| "logs (e # ev) = logs ev"

fun sent_to :: "chan \<Rightarrow> 'inbox event list \<Rightarrow> WorkRequest list" where
  "sent_to d [] = []"
| "sent_to d (SendWork ch r # ev) = (if ch = d then r # sent_to d ev else sent_to d ev)"
| "sent_to d (e # ev) = sent_to d ev"

section \<open>One run of SearchAndStore with its goroutines\<close>

text \<open>
  \<^verbatim>\<open>SearchAndStore\<close> starts \<^verbatim>\<open>MaxImapConns\<close> fetch workers and, for each destination,
  \<^verbatim>\<open>MaxImapConns\<close> store workers, and talks to them over unbuffered channels. A run is
  modelled as a sequence of steps of a state that holds the program point of every
  goroutine, the two \<^verbatim>\<open>WaitGroup\<close> counters and the closed flag of every channel. A step
  is either a local step of one goroutine, which takes the answers of the outside world
  as an \<open>io\<close>, or the handing over of a value on an unbuffered channel, which moves the
  sender and the receiver together. A step that is not enabled (a goroutine blocked on
  a channel or on \<^verbatim>\<open>Wait\<close>, an index that names no goroutine) leaves the state as it is,
  so every list of actions is a schedule. \<^verbatim>\<open>MaxImapConns\<close> is a constant of the package
  that is not in \<^verbatim>\<open>store.go\<close>: it is a parameter of the start state.

  A panic in any goroutine ends the program, after the deferred calls of that goroutine.
\<close>

datatype panic = NilDereference | IndexOutOfRange | SendOnClosedChannel

text \<open>The program points of \<^verbatim>\<open>SearchAndStore\<close>, with the loop variables.\<close>

datatype orch_pc =
    GetAll \<comment> \<open>line 19\<close>
  | GoFetchers nat \<comment> \<open>line 28, with \<^verbatim>\<open>j\<close>\<close>
  | ForDst nat \<comment> \<open>line 36, with the number of destinations handled\<close>
  | GoStorers nat nat \<comment> \<open>line 38, with the index of the destination and \<^verbatim>\<open>i\<close>\<close>
  | ForData "MessageInfo list" \<comment> \<open>line 48, with the entries of \<^verbatim>\<open>cmd.Data\<close> still to handle\<close>
  | SendTo WorkRequest nat "MessageInfo list"
      \<comment> \<open>line 57, with \<^verbatim>\<open>storeRequest\<close>, the index into \<^verbatim>\<open>dstsStoreRequests\<close> and the entries left\<close>
  | CloseStores nat \<comment> \<open>line 63, with the index into \<^verbatim>\<open>dstsStoreRequests\<close>\<close>
  | WaitStorers \<comment> \<open>line 67\<close>
  | CloseFetch \<comment> \<open>line 70\<close>
  | WaitFetchers \<comment> \<open>line 72\<close>
  | Returned "error option" \<comment> \<open>lines 22 and 75\<close>

text \<open>The program points of \<^verbatim>\<open>checkAndStoreMessages\<close>.\<close>

datatype store_pc =
    SConnect \<comment> \<open>line 81\<close>
  | SRange conn \<comment> \<open>line 88, waiting for a request or for the close of the channel\<close>
  | SSearch conn WorkRequest \<comment> \<open>line 89, with the request received\<close>
  | SSend conn WorkRequest fetchRequest \<comment> \<open>line 105, sending the fetch request\<close>
  | SRecv conn WorkRequest fetchRequest \<comment> \<open>line 108, waiting for the response\<close>
  | SAppend conn WorkRequest FieldMap \<comment> \<open>line 109, with the response\<close>
  | SDone \<comment> \<open>after the deferred \<^verbatim>\<open>wg.Done()\<close>\<close>

text \<open>The program points of \<^verbatim>\<open>fetchEmails\<close>.\<close>

datatype fetch_pc =
    FConnect \<comment> \<open>line 139\<close>
  | FRange conn \<comment> \<open>line 147, waiting for a request or for the close of the channel\<close>
  | FServe conn fetchRequest \<comment> \<open>line 149, with the request received\<close>
  | FRespond conn chan FieldMap \<comment> \<open>line 160 or 180, sending the response\<close>
  | FDone \<comment> \<open>after the deferred \<^verbatim>\<open>wg.Done()\<close>\<close>

text \<open>
  The state. A store worker is paired with the index of its destination, which is also
  the index of its work queue in \<^verbatim>\<open>dstsStoreRequests\<close>. \<open>made\<close> counts the response
  channels made so far and names the next one. \<open>built\<close> and \<open>delivered\<close> are history: the
  requests built at line 55, and for every work queue the requests that store workers
  have received from it.
\<close>

record 'inbox state =
  src :: 'inbox
  dsts :: "'inbox list"
  MaxImapConns :: nat
  orch :: orch_pc
  cmd_Data :: "MessageInfo list"
  fetchers :: nat
  storers :: nat
  fetchRequests_closed :: bool
  storeRequests_closed :: "bool list"
  fetch_workers :: "fetch_pc list"
  store_workers :: "(nat \<times> store_pc) list"
  made :: nat
  built :: "WorkRequest list"
  delivered :: "WorkRequest list list"
  crash :: "panic option"

definition init :: "'inbox \<Rightarrow> 'inbox list \<Rightarrow> nat \<Rightarrow> 'inbox state" where
  "init s ds n =
     \<lparr>src = s, dsts = ds, MaxImapConns = n, orch = GetAll, cmd_Data = [],
      fetchers = 0, storers = 0, fetchRequests_closed = False, storeRequests_closed = [],
      fetch_workers = [], store_workers = [], made = 0, built = [], delivered = [],
      crash = None\<rparr>"

text \<open>
  A step of \<^verbatim>\<open>SearchAndStore\<close>. \<^verbatim>\<open>Add(1)\<close> and the \<^verbatim>\<open>go\<close> statement after it are one
  step. The send of line 57 is the step \<open>deliver\<close> below; here it only goes wrong on a
  closed channel, and the loop of line 56 ends after the last queue. \<^verbatim>\<open>Wait\<close> goes on
  when the counter is zero.
\<close>

definition orch_step :: "'inbox io \<Rightarrow> 'inbox state \<Rightarrow> 'inbox state" where
  "orch_step io s =
     (case orch s of
        GetAll \<Rightarrow>
          (case GetAllMessages io (src s) of
             Inl err \<Rightarrow> s\<lparr>orch := Returned (Some err)\<rparr>
           | Inr data \<Rightarrow> s\<lparr>cmd_Data := data, orch := GoFetchers 0\<rparr>)
      | GoFetchers j \<Rightarrow>
          if j < MaxImapConns s
          then s\<lparr>fetchers := fetchers s + 1, fetch_workers := fetch_workers s @ [FConnect],
                 orch := GoFetchers (j + 1)\<rparr>
          else s\<lparr>orch := ForDst 0\<rparr>
      | ForDst d \<Rightarrow>
          if d < length (dsts s)
          then s\<lparr>storeRequests_closed := storeRequests_closed s @ [False],
                 delivered := delivered s @ [[]], orch := GoStorers d 0\<rparr>
          else s\<lparr>orch := ForData (cmd_Data s)\<rparr>
      | GoStorers d i \<Rightarrow>
          if i < MaxImapConns s
          then s\<lparr>storers := storers s + 1, store_workers := store_workers s @ [(d, SConnect)],
                 orch := GoStorers d (i + 1)\<rparr>
          else s\<lparr>orch := ForDst (d + 1)\<rparr>
      | ForData [] \<Rightarrow> s\<lparr>orch := CloseStores 0\<rparr>
      | ForData (rsp # rest) \<Rightarrow>
          (case storeRequest_of io rsp of
             None \<Rightarrow> s\<lparr>orch := ForData rest\<rparr>
           | Some storeRequest \<Rightarrow>
               s\<lparr>built := built s @ [storeRequest], orch := SendTo storeRequest 0 rest\<rparr>)
      | SendTo storeRequest k rest \<Rightarrow>
          if k < length (storeRequests_closed s)
          then (if storeRequests_closed s ! k then s\<lparr>crash := Some SendOnClosedChannel\<rparr> else s)
          else s\<lparr>orch := ForData rest\<rparr>
      | CloseStores k \<Rightarrow>
          if k < length (storeRequests_closed s)
          then s\<lparr>storeRequests_closed := (storeRequests_closed s)[k := True],
                 orch := CloseStores (k + 1)\<rparr>
          else s\<lparr>orch := WaitStorers\<rparr>
      | WaitStorers \<Rightarrow> if storers s = 0 then s\<lparr>orch := CloseFetch\<rparr> else s
      | CloseFetch \<Rightarrow> s\<lparr>fetchRequests_closed := True, orch := WaitFetchers\<rparr>
      | WaitFetchers \<Rightarrow> if fetchers s = 0 then s\<lparr>orch := Returned None\<rparr> else s
      | Returned r \<Rightarrow> s)"

text \<open>Store worker \<open>i\<close> receives the request that \<^verbatim>\<open>SearchAndStore\<close> is sending on the
  work queue of its destination (lines 57 and 88).\<close>

definition deliver :: "nat \<Rightarrow> 'inbox state \<Rightarrow> 'inbox state" where
  "deliver i s =
     (case orch s of
        SendTo storeRequest k rest \<Rightarrow>
          if k < length (storeRequests_closed s) \<and> \<not> storeRequests_closed s ! k
             \<and> i < length (store_workers s)
          then (case store_workers s ! i of
                  (d, SRange c) \<Rightarrow>
                    if d = k
                    then s\<lparr>store_workers := (store_workers s)[i := (d, SSearch c storeRequest)],
                           delivered := (delivered s)[k := delivered s ! k @ [storeRequest]],
                           orch := SendTo storeRequest (k + 1) rest\<rparr>
                    else s
                | _ \<Rightarrow> s)
          else s
      | _ \<Rightarrow> s)"

text \<open>The end of a store worker: the deferred \<^verbatim>\<open>Close(true)\<close>, when it connected, and
  \<^verbatim>\<open>wg.Done()\<close>.\<close>

definition store_done :: "nat \<Rightarrow> nat \<Rightarrow> 'inbox state \<Rightarrow> 'inbox state" where
  "store_done i d s = s\<lparr>store_workers := (store_workers s)[i := (d, SDone)], storers := storers s - 1\<rparr>"

text \<open>A local step of store worker \<open>i\<close>. A send on the closed channel
  \<^verbatim>\<open>fetchRequests\<close> would panic. Lines 109 to 119 end the iteration whatever the append
  answers.\<close>

definition store_step :: "nat \<Rightarrow> 'inbox io \<Rightarrow> 'inbox state \<Rightarrow> 'inbox state" where
  "store_step i io s =
     (if i < length (store_workers s) then
        (case store_workers s ! i of
           (d, SConnect) \<Rightarrow>
             (case GetConnection io (dsts s ! d) False of
                Inl err \<Rightarrow> store_done i d s
              | Inr dstConn \<Rightarrow> s\<lparr>store_workers := (store_workers s)[i := (d, SRange dstConn)]\<rparr>)
         | (d, SRange dstConn) \<Rightarrow>
             if storeRequests_closed s ! d then store_done i d s else s
         | (d, SSearch dstConn request) \<Rightarrow>
             (case store_search io dstConn (made s) request of
                (ev, Await fr) \<Rightarrow>
                  s\<lparr>store_workers := (store_workers s)[i := (d, SSend dstConn request fr)],
                    made := made s + 1\<rparr>
              | (ev, Panic) \<Rightarrow> (store_done i d s)\<lparr>crash := Some IndexOutOfRange\<rparr>
              | (ev, e) \<Rightarrow> s\<lparr>store_workers := (store_workers s)[i := (d, SRange dstConn)]\<rparr>)
         | (d, SSend dstConn request fr) \<Rightarrow>
             if fetchRequests_closed s
             then (store_done i d s)\<lparr>crash := Some SendOnClosedChannel\<rparr>
             else s
         | (d, SRecv dstConn request fr) \<Rightarrow> s
         | (d, SAppend dstConn request attrs) \<Rightarrow>
             s\<lparr>store_workers := (store_workers s)[i := (d, SRange dstConn)]\<rparr>
         | (d, SDone) \<Rightarrow> s)
      else s)"

text \<open>Fetch worker \<open>j\<close> receives the fetch request that store worker \<open>i\<close> is sending
  (lines 105 and 147).\<close>

definition hand :: "nat \<Rightarrow> nat \<Rightarrow> 'inbox state \<Rightarrow> 'inbox state" where
  "hand i j s =
     (if i < length (store_workers s) \<and> j < length (fetch_workers s) \<and> \<not> fetchRequests_closed s
      then (case (store_workers s ! i, fetch_workers s ! j) of
              ((d, SSend dstConn request fr), FRange c) \<Rightarrow>
                s\<lparr>store_workers := (store_workers s)[i := (d, SRecv dstConn request fr)],
                  fetch_workers := (fetch_workers s)[j := FServe c fr]\<rparr>
            | _ \<Rightarrow> s)
      else s)"

definition fetch_done :: "nat \<Rightarrow> 'inbox state \<Rightarrow> 'inbox state" where
  "fetch_done j s = s\<lparr>fetch_workers := (fetch_workers s)[j := FDone], fetchers := fetchers s - 1\<rparr>"

text \<open>A local step of fetch worker \<open>j\<close>. What it does with a request is
  \<open>fetchEmails_request\<close>; when that writes to the response channel the worker is sending
  until the store worker takes the value.\<close>

definition fetch_step :: "nat \<Rightarrow> 'inbox io \<Rightarrow> 'inbox state \<Rightarrow> 'inbox state" where
  "fetch_step j io s =
     (if j < length (fetch_workers s) then
        (case fetch_workers s ! j of
           FConnect \<Rightarrow>
             (case GetConnection io (src s) True of
                Inl err \<Rightarrow> fetch_done j s
              | Inr c \<Rightarrow> s\<lparr>fetch_workers := (fetch_workers s)[j := FRange c]\<rparr>)
         | FRange c \<Rightarrow> if fetchRequests_closed s then fetch_done j s else s
         | FServe c request \<Rightarrow>
             (case fetchEmails_request io c request of
                (ev, Panic) \<Rightarrow> (fetch_done j s)\<lparr>crash := Some NilDereference\<rparr>
              | (ev, e) \<Rightarrow>
                  (case responses ev of
                     [] \<Rightarrow> s\<lparr>fetch_workers := (fetch_workers s)[j := FRange c]\<rparr>
                   | (ch, msgFields) # others \<Rightarrow>
                       s\<lparr>fetch_workers := (fetch_workers s)[j := FRespond c ch msgFields]\<rparr>))
         | FRespond c ch msgFields \<Rightarrow> s
         | FDone \<Rightarrow> s)
      else s)"

text \<open>Store worker \<open>i\<close> receives the response that fetch worker \<open>j\<close> is sending on the
  response channel of its request (lines 108 and 160 or 180).\<close>

definition reply :: "nat \<Rightarrow> nat \<Rightarrow> 'inbox state \<Rightarrow> 'inbox state" where
  "reply j i s =
     (if i < length (store_workers s) \<and> j < length (fetch_workers s)
      then (case (fetch_workers s ! j, store_workers s ! i) of
              (FRespond c ch msgFields, (d, SRecv dstConn request fr)) \<Rightarrow>
                if Response fr = ch
                then s\<lparr>fetch_workers := (fetch_workers s)[j := FRange c],
                       store_workers := (store_workers s)[i := (d, SAppend dstConn request msgFields)]\<rparr>
                else s
            | _ \<Rightarrow> s)
      else s)"

text \<open>The steps, and a run along a schedule. After a panic nothing moves.\<close>

datatype 'inbox action =
    Orch "'inbox io"
  | Deliver nat
  | Store nat "'inbox io"
  | Hand nat nat
  | Serve nat "'inbox io"
  | Reply nat nat

definition step :: "'inbox action \<Rightarrow> 'inbox state \<Rightarrow> 'inbox state" where
  "step a s =
     (if crash s \<noteq> None then s
      else case a of
             Orch io \<Rightarrow> orch_step io s
           | Deliver i \<Rightarrow> deliver i s
           | Store i io \<Rightarrow> store_step i io s
           | Hand i j \<Rightarrow> hand i j s
           | Serve j io \<Rightarrow> fetch_step j io s
           | Reply j i \<Rightarrow> reply j i s)"

fun run :: "'inbox action list \<Rightarrow> 'inbox state \<Rightarrow> 'inbox state" where
  "run [] s = s"
| "run (a # as) s = run as (step a s)"

section \<open>Invariants of a run\<close>

text \<open>The number of store workers that have not reached \<^verbatim>\<open>wg.Done()\<close>.\<close>

definition live :: "(nat \<times> store_pc) list \<Rightarrow> nat" where
  "live ws = length (filter (\<lambda>w. snd w \<noteq> SDone) ws)"

text \<open>Where \<^verbatim>\<open>SearchAndStore\<close> is: past \<^verbatim>\<open>storers.Wait()\<close>, past the close of
  \<^verbatim>\<open>fetchRequests\<close>, past the close of work queue \<open>k\<close>.\<close>

fun after_wait :: "orch_pc \<Rightarrow> bool" where
  "after_wait CloseFetch = True"
| "after_wait WaitFetchers = True"
| "after_wait (Returned None) = True"
| "after_wait pc = False"

fun after_close :: "orch_pc \<Rightarrow> bool" where
  "after_close WaitFetchers = True"
| "after_close (Returned None) = True"
| "after_close pc = False"

fun may_be_closed :: "orch_pc \<Rightarrow> nat \<Rightarrow> bool" where
  "may_be_closed (CloseStores k') k = (k < k')"
| "may_be_closed WaitStorers k = True"
| "may_be_closed CloseFetch k = True"
| "may_be_closed WaitFetchers k = True"
| "may_be_closed (Returned None) k = True"
| "may_be_closed pc k = False"

text \<open>The counter \<^verbatim>\<open>storers\<close> is the number of live store workers, it is zero once
  \<^verbatim>\<open>Wait\<close> has returned, and \<^verbatim>\<open>fetchRequests\<close> is closed after that only.\<close>

definition inv_wait :: "'inbox state \<Rightarrow> bool" where
  "inv_wait s \<longleftrightarrow>
     storers s = live (store_workers s)
     \<and> (after_wait (orch s) \<longrightarrow> storers s = 0)
     \<and> (fetchRequests_closed s \<longrightarrow> after_close (orch s))"

text \<open>A work queue is closed by the loop of line 63 only.\<close>

definition inv_closed :: "'inbox state \<Rightarrow> bool" where
  "inv_closed s \<longleftrightarrow>
     (\<forall>k < length (storeRequests_closed s). storeRequests_closed s ! k \<longrightarrow> may_be_closed (orch s) k)"

text \<open>
  What every work queue has delivered: before the loop of line 48 nothing is built;
  while \<^verbatim>\<open>SearchAndStore\<close> sends the request \<open>r\<close>, the last one built, the queues before
  index \<open>k\<close> have delivered all requests built and the others all but \<open>r\<close>; at every
  other point every queue has delivered all requests built.
\<close>

fun before_sending :: "orch_pc \<Rightarrow> bool" where
  "before_sending GetAll = True"
| "before_sending (GoFetchers j) = True"
| "before_sending (ForDst d) = True"
| "before_sending (GoStorers d i) = True"
| "before_sending (Returned (Some err)) = True"
| "before_sending pc = False"

fun sending :: "orch_pc \<Rightarrow> WorkRequest list \<Rightarrow> bool" where
  "sending (SendTo r k rest) rs = (rs \<noteq> [] \<and> last rs = r)"
| "sending pc rs = True"

fun expect :: "orch_pc \<Rightarrow> WorkRequest list \<Rightarrow> nat \<Rightarrow> WorkRequest list" where
  "expect (SendTo r k rest) rs k' = (if k' < k then rs else butlast rs)"
| "expect pc rs k' = rs"

definition inv_delivered :: "'inbox state \<Rightarrow> bool" where
  "inv_delivered s \<longleftrightarrow>
     length (delivered s) = length (storeRequests_closed s)
     \<and> (before_sending (orch s) \<longrightarrow> built s = [])
     \<and> sending (orch s) (built s)
     \<and> (\<forall>k < length (delivered s). delivered s ! k = expect (orch s) (built s) k)"

text \<open>How many store workers and work queues exist at each point of the loops of lines
  36 and 38, and that every store worker reads an existing queue.\<close>

fun started :: "nat \<Rightarrow> nat \<Rightarrow> orch_pc \<Rightarrow> nat" where
  "started m n GetAll = 0"
| "started m n (GoFetchers j) = 0"
| "started m n (ForDst d) = d * m"
| "started m n (GoStorers d i) = d * m + i"
| "started m n (Returned (Some err)) = 0"
| "started m n pc = n * m"

fun chans_made :: "nat \<Rightarrow> orch_pc \<Rightarrow> nat" where
  "chans_made n GetAll = 0"
| "chans_made n (GoFetchers j) = 0"
| "chans_made n (ForDst d) = d"
| "chans_made n (GoStorers d i) = d + 1"
| "chans_made n (Returned (Some err)) = 0"
| "chans_made n pc = n"

fun in_bounds :: "nat \<Rightarrow> nat \<Rightarrow> orch_pc \<Rightarrow> bool" where
  "in_bounds m n (ForDst d) = (d \<le> n)"
| "in_bounds m n (GoStorers d i) = (d < n \<and> i \<le> m)"
| "in_bounds m n pc = True"

definition inv_started :: "'inbox state \<Rightarrow> bool" where
  "inv_started s \<longleftrightarrow>
     in_bounds (MaxImapConns s) (length (dsts s)) (orch s)
     \<and> length (store_workers s) = started (MaxImapConns s) (length (dsts s)) (orch s)
     \<and> length (storeRequests_closed s) = chans_made (length (dsts s)) (orch s)
     \<and> (\<forall>i < length (store_workers s). fst (store_workers s ! i) < length (storeRequests_closed s))"

fun sending_over :: "orch_pc \<Rightarrow> bool" where
  "sending_over (CloseStores k) = True"
| "sending_over WaitStorers = True"
| "sending_over CloseFetch = True"
| "sending_over WaitFetchers = True"
| "sending_over (Returned None) = True"
| "sending_over pc = False"

definition invariant :: "'inbox state \<Rightarrow> bool" where
  "invariant s \<longleftrightarrow>
     inv_wait s \<and> inv_closed s \<and> inv_delivered s \<and> inv_started s
     \<and> crash s \<noteq> Some SendOnClosedChannel"

section \<open>Concrete inputs\<close>

text \<open>
  A world in which every call succeeds, the destination holds no message and the cache
  holds no entry: \<^verbatim>\<open>memcache.Client.Get\<close> then returns a nil item and
  \<^verbatim>\<open>ErrCacheMiss\<close>. The other worlds differ from it in one answer.
\<close>

definition io_cache_miss :: "string io" where
  "io_cache_miss =
     \<lparr>GetAllMessages = (\<lambda>inbox. Inr []),
      GetConnection = (\<lambda>info readOnly. Inr 0),
      ReadMessage = (\<lambda>b. None),
      UIDSearch = (\<lambda>c q. Inr [[]]),
      UIDFetch = (\<lambda>c uid names. Inr [[(''BODY[]'', ''hello'')]]),
      Append = (\<lambda>c mbox flags date body. None),
      cache_Get = (\<lambda>k. (None, Some (Error ''memcache: cache miss''))),
      cache_Add = (\<lambda>item. None),
      gob_Encode = (\<lambda>m. Inr ''gob''),
      gob_Decode = (\<lambda>b. Inr [(''BODY[]'', ''hello'')]),
      Receive = (\<lambda>ch. None)\<rparr>"

text \<open>The cache holds an entry for every key, and the entry decodes to a snapshot with
  one field.\<close>

definition io_cache_hit :: "string io" where
  "io_cache_hit =
     io_cache_miss\<lparr>cache_Get := (\<lambda>k. (Some \<lparr>Key = k, ItemValue = ''gob''\<rparr>, None)),
                   cache_Add := (\<lambda>item. Some (Error ''memcache: item not stored''))\<rparr>"

text \<open>The fetch from the source fails, or succeeds with no data.\<close>

definition io_fetch_error :: "string io" where
  "io_fetch_error = io_cache_hit\<lparr>UIDFetch := (\<lambda>c uid names. Inl (Error ''timeout''))\<rparr>"

definition io_fetch_empty :: "string io" where
  "io_fetch_empty = io_cache_hit\<lparr>UIDFetch := (\<lambda>c uid names. Inr [])\<rparr>"

text \<open>The destination already holds a message with the header that is searched for.\<close>

definition io_present :: "string io" where
  "io_present = io_cache_miss\<lparr>UIDSearch := (\<lambda>c q. Inr [[5]])\<rparr>"

text \<open>Every header parses, except \<open>''bad''\<close>, to a message with a subject and no
  \<^verbatim>\<open>Message-Id\<close>.\<close>

definition io_parsed :: "string io" where
  "io_parsed =
     io_cache_miss\<lparr>ReadMessage := (\<lambda>b. if b = ''bad'' then None else Some [(''Subject'', [b])])\<rparr>"

definition request1 :: fetchRequest where
  "request1 = \<lparr>MessageId = ''id1'', ReqUID = 7, Response = 3\<rparr>"

definition work1 :: WorkRequest where
  "work1 = \<lparr>Value = ''id1'', Header = ''Message-Id'', UID = 7\<rparr>"

definition listed :: "string \<Rightarrow> uint32 \<Rightarrow> MessageInfo" where
  "listed h u = \<lparr>Attrs = [(''RFC822.HEADER'', h)], MsgUID = u\<rparr>"

text \<open>
  Inputs of whole runs: one source message with the \<^verbatim>\<open>Message-Id\<close> \<open>''id1''\<close>, one
  destination that does not hold it, one worker per pool. In \<open>io_ok\<close> everything succeeds
  and the cache holds the message; in \<open>io_fetch_fails\<close> the fetch from the source fails;
  in \<open>io_dst_refuses\<close> no connection to the destination can be opened; in
  \<open>io_cache_empty\<close> the cache holds no entry.
\<close>

definition io_ok :: "string io" where
  "io_ok = io_cache_hit\<lparr>GetAllMessages := (\<lambda>inbox. Inr [listed ''a'' 7]),
                         ReadMessage := (\<lambda>b. Some [(''Message-Id'', [''id1''])])\<rparr>"

definition io_fetch_fails :: "string io" where
  "io_fetch_fails = io_ok\<lparr>UIDFetch := (\<lambda>c uid names. Inl (Error ''timeout''))\<rparr>"

definition io_dst_refuses :: "string io" where
  "io_dst_refuses =
     io_ok\<lparr>GetConnection :=
             (\<lambda>inbox readOnly. if readOnly then Inr 0 else Inl (Error ''connection refused''))\<rparr>"

definition io_cache_empty :: "string io" where
  "io_cache_empty = io_ok\<lparr>cache_Get := (\<lambda>k. (None, Some (Error ''memcache: cache miss'')))\<rparr>"

text \<open>The schedule up to the first send of line 57: the listing, one fetch worker, one
  work queue, one store worker, and the request of the message.\<close>

definition startup :: "string io \<Rightarrow> string action list" where
  "startup io = [Orch io, Orch io, Orch io, Orch io, Orch io, Orch io, Orch io, Orch io]"

text \<open>Both workers connect, the store worker receives the request,
  \<^verbatim>\<open>SearchAndStore\<close> closes the work queue and waits; the store worker searches and
  hands its fetch request to the fetch worker, which serves it.\<close>

definition serve_one :: "string io \<Rightarrow> string action list" where
  "serve_one io =
     startup io @
     [Store 0 io, Serve 0 io, Deliver 0, Orch io, Orch io, Orch io, Orch io,
      Store 0 io, Hand 0 0, Serve 0 io]"

text \<open>A complete run: the response is handed back, the store worker appends and leaves
  at the closed queue, \<^verbatim>\<open>SearchAndStore\<close> closes \<^verbatim>\<open>fetchRequests\<close>, the fetch worker
  leaves, \<^verbatim>\<open>SearchAndStore\<close> returns.\<close>

definition sched_ok :: "string action list" where
  "sched_ok =
     serve_one io_ok @
     [Reply 0 0, Store 0 io_ok, Store 0 io_ok, Orch io_ok, Orch io_ok, Serve 0 io_ok, Orch io_ok]"

text \<open>The store worker fails to connect; the fetch worker connects.\<close>

definition sched_dst_refuses :: "string action list" where
  "sched_dst_refuses = startup io_dst_refuses @ [Store 0 io_dst_refuses, Serve 0 io_dst_refuses]"

text \<open>The states in which the three failing runs end.\<close>

definition stuck_at_wait :: "string state" where
  "stuck_at_wait =
     \<lparr>src = ''src'', dsts = [''dst''], MaxImapConns = 1, orch = WaitStorers,
      cmd_Data = [listed ''a'' 7], fetchers = 1, storers = 1,
      fetchRequests_closed = False, storeRequests_closed = [True],
      fetch_workers = [FRange 0],
      store_workers = [(0, SRecv 0 work1 \<lparr>MessageId = ''id1'', ReqUID = 7, Response = 0\<rparr>)],
      made = 1, built = [work1], delivered = [[work1]], crash = None\<rparr>"

definition stuck_at_send :: "string state" where
  "stuck_at_send =
     \<lparr>src = ''src'', dsts = [''dst''], MaxImapConns = 1, orch = SendTo work1 0 [],
      cmd_Data = [listed ''a'' 7], fetchers = 1, storers = 0,
      fetchRequests_closed = False, storeRequests_closed = [False],
      fetch_workers = [FRange 0], store_workers = [(0, SDone)],
      made = 0, built = [work1], delivered = [[]], crash = None\<rparr>"

definition crashed :: "string state" where
  "crashed =
     \<lparr>src = ''src'', dsts = [''dst''], MaxImapConns = 1, orch = WaitStorers,
      cmd_Data = [listed ''a'' 7], fetchers = 0, storers = 1,
      fetchRequests_closed = False, storeRequests_closed = [True],
      fetch_workers = [FDone],
      store_workers = [(0, SRecv 0 work1 \<lparr>MessageId = ''id1'', ReqUID = 7, Response = 0\<rparr>)],
      made = 1, built = [work1], delivered = [[work1]], crash = Some NilDereference\<rparr>"

section \<open>Lemmas about traces\<close>

lemmas fetch_defs =
  fetchEmails_request_def fetch_cached_def fetch_live_def serialize_def deserialize_def Let_def

lemmas store_defs =
  checkAndStoreMessages_request_def store_search_def store_append_def Let_def

lemmas input_defs =
  io_cache_miss_def io_cache_hit_def io_fetch_error_def io_fetch_empty_def io_present_def
  io_parsed_def request1_def work1_def listed_def

lemma closes_append: "closes (xs @ ys) = closes xs @ closes ys"
  by (induction xs rule: closes.induct) simp_all

lemma sent_to_append: "sent_to d (xs @ ys) = sent_to d xs @ sent_to d ys"
  by (induction xs rule: sent_to.induct) simp_all

lemma sent_to_map:
  "distinct chans \<Longrightarrow>
   sent_to d (map (\<lambda>ch. SendWork ch r) chans) = (if d \<in> set chans then [r] else [])"
  by (induction chans) auto

lemma logs_map: "logs (map (\<lambda>ch. SendWork ch r) chans @ ev) = logs ev"
  by (induction chans) simp_all

lemma closes_fetch_request: "closes (fst (fetchEmails_request io c request)) = []"
  by (auto simp: fetch_defs closes_append
      split: prod.splits option.splits sum.splits list.splits if_splits)

lemma closes_fetch_loop: "closes (fst (fetchEmails_loop c requests)) = []"
proof (induction requests)
  case Nil
  show ?case by simp
next
  case (Cons a requests)
  obtain io request where a: "a = (io, request)" by (cases a)
  obtain ev e where r: "fetchEmails_request io c request = (ev, e)"
    by (cases "fetchEmails_request io c request")
  have "closes ev = []" using closes_fetch_request [of io c request] r by simp
  then show ?case using Cons a r
    by (cases e) (auto simp: closes_append split: prod.splits)
qed

lemma closes_store_request: "closes (fst (checkAndStoreMessages_request io c ch request)) = []"
  by (auto simp: store_defs closes_append
      split: prod.splits option.splits sum.splits list.splits if_splits step_end.splits)

lemma store_request_end: "snd (checkAndStoreMessages_request io c ch request) \<noteq> Await fr"
  by (auto simp: store_defs
      split: prod.splits option.splits sum.splits list.splits if_splits step_end.splits)

lemma closes_store_loop:
  "closes (fst (checkAndStoreMessages_loop c requests)) = []
   \<and> snd (checkAndStoreMessages_loop c requests) \<noteq> Await fr"
proof (induction requests)
  case Nil
  show ?case by simp
next
  case (Cons a requests)
  obtain io ch request where a: "a = (io, ch, request)" by (cases a)
  obtain ev e where r: "checkAndStoreMessages_request io c ch request = (ev, e)"
    by (cases "checkAndStoreMessages_request io c ch request")
  have "closes ev = []" using closes_store_request [of io c ch request] r by simp
  moreover have "e \<noteq> Await fr" using store_request_end [of io c ch request fr] r by simp
  ultimately show ?case using Cons a r
    by (cases e) (auto simp: closes_append split: prod.splits)
qed

section \<open>The fetch worker and the cache\<close>

text \<open>
  C1. The claim: a request whose identifier has a cache entry that decodes to a
  non-empty field map is answered from the cache, with no fetch from the source, so a
  second request for an identifier costs no second fetch. The code does the opposite.
  The test of line 149 is \<^verbatim>\<open>err != nil\<close>, so a successful \<^verbatim>\<open>Get\<close> skips the branch that
  answers from the cache: with an entry for \<open>''id1''\<close> in the cache the worker fetches
  message 7 from the source and answers with what it fetched, and two requests in a row
  fetch twice.
\<close>

theorem cache_hit_still_fetches:
  "fetchEmails_request io_cache_hit 0 request1 =
     ([CacheGet ''id1'',
       Fetch 0 7 [''INTERNALDATE'', ''BODY[]''],
       Respond 3 [(''BODY[]'', ''hello'')],
       CacheAdd \<lparr>Key = ''id1'', ItemValue = ''gob''\<rparr>,
       Log ''Unable to add message (%s) to cache: %s''], Continue)
   \<and> fetches (fst (fetchEmails_loop 0 [(io_cache_hit, request1), (io_cache_hit, request1)]))
       = [7, 7]"
  by (simp add: fetch_defs input_defs)

text \<open>
  C2. The claim: when the fetch from the source fails or returns nothing, the fetch
  worker sends an empty snapshot on the response channel, and the store worker that
  waits for it logs and goes on. The code sends nothing in both cases (lines 169 to 177
  end in \<^verbatim>\<open>continue\<close>), and the store worker stays at the receive of line 108.
\<close>

theorem failed_fetch_sends_nothing:
  "fetchEmails_request io_fetch_error 0 request1 =
     ([CacheGet ''id1'',
       Fetch 0 7 [''INTERNALDATE'', ''BODY[]''],
       Log ''Unable to fetch message (%s) from src: %s''], Continue)
   \<and> responses (fst (fetchEmails_request io_fetch_error 0 request1)) = []
   \<and> responses (fst (fetchEmails_request io_fetch_empty 0 request1)) = []
   \<and> checkAndStoreMessages_request io_fetch_error 1 3 work1 =
       ([Log ''checking and storing (%s)'',
         Search 1 [''HEADER'', ''Message-Id'', ''id1''],
         SendFetch request1], Blocked)"
  by (simp add: fetch_defs store_defs input_defs)

text \<open>
  C3. The claim: an error of the cache lookup, a plain miss included, is handled like a
  miss, the worker goes on to fetch from the source, and no nil item is dereferenced.
  In the code the branch of line 149 is the one taken on an error, and its first
  statement reads \<^verbatim>\<open>msgBytes.Value\<close>: on a miss the item is nil and the worker panics
  before any fetch.
\<close>

theorem cache_miss_panics:
  "fetchEmails_request io_cache_miss 0 request1 = ([CacheGet ''id1''], Panic)
   \<and> fetchEmails io_cache_miss ''src'' [(io_cache_miss, request1)] =
       ([Connect ''src'' True, CacheGet ''id1'', WgDone], Panic)"
  by (simp add: fetch_defs fetchEmails_def input_defs)

text \<open>
  C8. For every request and every answer of the outside world, the fetch worker writes
  at most once to the response channel, and only to the channel of that request. It
  writes exactly once when the iteration ends in the branch that answers from the cache
  (it ends normally without a fetch from the source) and when the fetch from the source
  returns at least one entry; it writes nothing otherwise.
\<close>

theorem response_written_at_most_once:
  "length (responses (fst (fetchEmails_request io c request))) \<le> 1
   \<and> set (responses (fst (fetchEmails_request io c request))) \<subseteq> {Response request} \<times> UNIV
   \<and> length (responses (fst (fetchEmails_request io c request))) =
       (if (fetches (fst (fetchEmails_request io c request)) = []
            \<and> snd (fetchEmails_request io c request) = Continue)
           \<or> (fetches (fst (fetchEmails_request io c request)) \<noteq> []
              \<and> (\<exists>m rest. UIDFetch io c (ReqUID request) [''INTERNALDATE'', ''BODY[]'']
                            = Inr (m # rest)))
        then 1 else 0)"
  by (auto simp: fetch_defs
      split: prod.splits option.splits sum.splits list.splits if_splits)

theorem response_written_at_most_once_witness:
  "responses (fst (fetchEmails_request io_cache_hit 0 request1)) = [(3, [(''BODY[]'', ''hello'')])]
   \<and> fetches (fst (fetchEmails_request io_cache_hit 0 request1)) \<noteq> []
   \<and> length (responses (fst (fetchEmails_request io_fetch_error 0 request1))) = 0"
  using response_written_at_most_once [of io_cache_hit 0 request1]
    response_written_at_most_once [of io_fetch_error 0 request1]
  by (simp add: fetch_defs input_defs)

section \<open>The store worker\<close>

text \<open>
  C6. A store worker appends to its destination in an iteration exactly when the search
  for the header value of the request succeeded, the first entry of its data holds no
  match, and a non-empty response came back on the response channel; it then appends
  once. When the search finds a match the iteration consists of the log line and the
  search: no fetch request and no append, so an identifier that the destination search
  finds is not appended again.
\<close>

theorem append_only_when_absent:
  "(appends (fst (checkAndStoreMessages_request io dstConn response request)) \<noteq> [] \<longleftrightarrow>
      (\<exists>others attrs.
          UIDSearch io dstConn [''HEADER'', Header request, Value request] = Inr ([] # others)
          \<and> Receive io response = Some attrs \<and> 0 < len attrs))
   \<and> length (appends (fst (checkAndStoreMessages_request io dstConn response request))) \<le> 1
   \<and> (\<forall>results others.
          UIDSearch io dstConn [''HEADER'', Header request, Value request] = Inr (results # others)
          \<and> results \<noteq> []
          \<longrightarrow> checkAndStoreMessages_request io dstConn response request =
               ([Log ''checking and storing (%s)'',
                 Search dstConn [''HEADER'', Header request, Value request]], Continue))"
  by (auto simp: store_defs split: sum.splits list.splits option.splits)

theorem append_only_when_absent_witness:
  "UIDSearch io_present 1 [''HEADER'', Header work1, Value work1] = Inr ([5] # [])
   \<and> [5::uint32] \<noteq> []
   \<and> appends (fst (checkAndStoreMessages_request io_present 1 3 work1)) = []
   \<and> appends (fst (checkAndStoreMessages_request
        (io_cache_miss\<lparr>Receive := (\<lambda>ch. Some [(''BODY[]'', ''hello'')])\<rparr>) 1 3 work1))
       = [(1, ''hello'')]"
  using append_only_when_absent [of io_present 1 3 work1]
  by (simp add: store_defs input_defs len_def AsBytes_def)

text \<open>
  C10. A store worker that connected and then left its loop, at the closed channel or
  in a panic, ends with \<^verbatim>\<open>dstConn.Close(true)\<close> followed by \<^verbatim>\<open>wg.Done()\<close>, and that is
  its only close. A fetch worker closes no connection, whatever it receives and
  however it ends.
\<close>

theorem store_closes_fetch_does_not:
  "(GetConnection io dst False = Inr dstConn
      \<and> (snd (checkAndStoreMessages io dst requests) = Continue
         \<or> snd (checkAndStoreMessages io dst requests) = Panic)
      \<longrightarrow> (\<exists>ev. fst (checkAndStoreMessages io dst requests) = ev @ [Close dstConn True, WgDone])
        \<and> closes (fst (checkAndStoreMessages io dst requests)) = [(dstConn, True)])
   \<and> closes (fst (fetchEmails io' inbox requests')) = []"
proof -
  obtain ev e where l: "checkAndStoreMessages_loop dstConn requests = (ev, e)"
    by (cases "checkAndStoreMessages_loop dstConn requests")
  have c: "closes ev = []" using closes_store_loop [of dstConn requests] l by simp
  have store: "(\<exists>ev. fst (checkAndStoreMessages io dst requests) = ev @ [Close dstConn True, WgDone])
        \<and> closes (fst (checkAndStoreMessages io dst requests)) = [(dstConn, True)]"
    if "GetConnection io dst False = Inr dstConn"
      and "snd (checkAndStoreMessages io dst requests) = Continue
         \<or> snd (checkAndStoreMessages io dst requests) = Panic"
    using that l c by (cases e) (auto simp: checkAndStoreMessages_def closes_append)
  have "closes (fst (fetchEmails io' inbox requests')) = []"
  proof (cases "GetConnection io' inbox True")
    case (Inl err)
    then show ?thesis by (simp add: fetchEmails_def)
  next
    case (Inr c')
    obtain ev' e' where l': "fetchEmails_loop c' requests' = (ev', e')"
      by (cases "fetchEmails_loop c' requests'")
    have "closes ev' = []" using closes_fetch_loop [of c' requests'] l' by simp
    then show ?thesis using Inr l' by (cases e') (simp_all add: fetchEmails_def closes_append)
  qed
  with store show ?thesis by blast
qed

theorem store_closes_fetch_does_not_witness:
  "GetConnection io_present ''dst'' False = Inr 0
   \<and> checkAndStoreMessages io_present ''dst'' [(io_present, 3, work1)] =
       ([Connect ''dst'' False, Log ''checking and storing (%s)'',
         Search 0 [''HEADER'', ''Message-Id'', ''id1''], Log ''storer complete!'',
         Close 0 True, WgDone], Continue)
   \<and> closes (fst (fetchEmails io_cache_hit ''src'' [(io_cache_hit, request1)])) = []"
  using store_closes_fetch_does_not
    [of io_present "''dst''" 0 "[(io_present, 3, work1)]" io_cache_hit "''src''"
        "[(io_cache_hit, request1)]"]
  by (simp add: store_defs checkAndStoreMessages_def input_defs)

section \<open>The requests that SearchAndStore sends\<close>

text \<open>
  C7, as the claim states it: a message that cannot be parsed is skipped with a log
  line. Lines 47 to 60 hold no call of the logger: for a listing with one entry whose
  header does not parse, the loop builds no request and does nothing at all.
\<close>

theorem unparsed_message_not_logged:
  "storeRequest_of io_parsed (listed ''bad'' 2) = None
   \<and> send_requests io_parsed [0, 1] [listed ''bad'' 2] = []
   \<and> logs (send_requests io_parsed [0, 1] [listed ''bad'' 2]) = []"
  by (simp add: storeRequest_of_def input_defs AsBytes_def)

text \<open>
  C7, amended. For every listed message whose header parses, the loop builds one
  request and sends it on the work queue of every destination; the requests sent on
  one queue are those of the parsed messages, in listing order. A message that does not
  parse leads to no send, and the loop writes no log line.
\<close>

theorem requests_sent_in_listing_order:
  "(distinct chans \<and> d \<in> set chans \<longrightarrow>
      sent_to d (send_requests io chans data) = List.map_filter (storeRequest_of io) data)
   \<and> logs (send_requests io chans data) = []
   \<and> (storeRequest_of io rsp = None \<longrightarrow>
        send_requests io chans (rsp # data) = send_requests io chans data)"
proof -
  have "sent_to d (send_requests io chans data) = List.map_filter (storeRequest_of io) data"
    if "distinct chans" "d \<in> set chans"
  proof (induction data)
    case Nil
    show ?case by (simp add: List.map_filter_simps)
  next
    case (Cons rsp rest)
    show ?case using Cons that
      by (cases "storeRequest_of io rsp")
         (simp_all add: List.map_filter_simps sent_to_map sent_to_append)
  qed
  moreover have "logs (send_requests io chans data) = []"
    by (induction data) (simp_all add: logs_map split: option.splits)
  ultimately show ?thesis by simp
qed

theorem requests_sent_in_listing_order_witness:
  "distinct [0, 1 :: nat] \<and> (1 :: nat) \<in> set [0, 1]
   \<and> storeRequest_of io_parsed (listed ''bad'' 2) = None
   \<and> sent_to 1 (send_requests io_parsed [0, 1] [listed ''a'' 1, listed ''bad'' 2, listed ''c'' 3])
       = [\<lparr>Value = [], Header = ''Message-Id'', UID = 1\<rparr>,
          \<lparr>Value = [], Header = ''Message-Id'', UID = 3\<rparr>]"
  using requests_sent_in_listing_order
    [of "[0, 1]" 1 io_parsed "[listed ''a'' 1, listed ''bad'' 2, listed ''c'' 3]" "listed ''bad'' 2"]
  by (simp add: storeRequest_of_def input_defs AsBytes_def Header_Get_def List.map_filter_simps)

text \<open>
  C9. A listed message whose header parses and holds no \<^verbatim>\<open>Message-Id\<close> is not skipped:
  its request carries the empty string as value. Two such messages differ in the UID
  only: for both, a store worker searches its destination for
  \<^verbatim>\<open>HEADER Message-Id ""\<close>, under the same answers both lead to a fetch request or
  neither does, and every fetch request made for them has the empty string as its
  \<^verbatim>\<open>MessageId\<close>, which is the key the fetch worker looks up in the cache.
\<close>

theorem missing_message_id_shares_empty_key:
  assumes "ReadMessage io (AsBytes (map_of (Attrs rsp1) ''RFC822.HEADER'')) = Some msg1"
    and "map_of msg1 ''Message-Id'' = None"
    and "ReadMessage io (AsBytes (map_of (Attrs rsp2) ''RFC822.HEADER'')) = Some msg2"
    and "map_of msg2 ''Message-Id'' = None"
  shows "\<exists>r1 r2. storeRequest_of io rsp1 = Some r1 \<and> storeRequest_of io rsp2 = Some r2
      \<and> Value r1 = [] \<and> Value r2 = []
      \<and> Header r1 = ''Message-Id'' \<and> Header r2 = ''Message-Id''
      \<and> UID r1 = MsgUID rsp1 \<and> UID r2 = MsgUID rsp2
      \<and> (\<forall>w c ch.
            searches (fst (store_search w c ch r1)) = [(c, [''HEADER'', ''Message-Id'', []])]
          \<and> searches (fst (store_search w c ch r2)) = [(c, [''HEADER'', ''Message-Id'', []])]
          \<and> ((\<exists>fr. snd (store_search w c ch r1) = Await fr) \<longleftrightarrow>
               (\<exists>fr. snd (store_search w c ch r2) = Await fr))
          \<and> (\<forall>fr. snd (store_search w c ch r1) = Await fr \<or> snd (store_search w c ch r2) = Await fr
                \<longrightarrow> MessageId fr = []
                  \<and> (\<forall>w' c'. hd (fst (fetchEmails_request w' c' fr)) = CacheGet [])))"
  using assms
  by (auto simp: storeRequest_of_def Header_Get_def store_search_def Let_def
      fetchEmails_request_def fetch_cached_def
      split: sum.splits list.splits option.splits prod.splits)

theorem missing_message_id_shares_empty_key_witness:
  "ReadMessage io_parsed (AsBytes (map_of (Attrs (listed ''a'' 1)) ''RFC822.HEADER''))
     = Some [(''Subject'', [''a''])]
   \<and> map_of [(''Subject'', [''a''])] ''Message-Id'' = None
   \<and> ReadMessage io_parsed (AsBytes (map_of (Attrs (listed ''c'' 3)) ''RFC822.HEADER''))
     = Some [(''Subject'', [''c''])]
   \<and> map_of [(''Subject'', [''c''])] ''Message-Id'' = None
   \<and> (\<exists>r1 r2. storeRequest_of io_parsed (listed ''a'' 1) = Some r1
        \<and> storeRequest_of io_parsed (listed ''c'' 3) = Some r2 \<and> Value r1 = [] \<and> Value r2 = [])"
proof -
  have h1: "ReadMessage io_parsed (AsBytes (map_of (Attrs (listed ''a'' 1)) ''RFC822.HEADER''))
      = Some [(''Subject'', [''a''])]"
    by (simp add: input_defs AsBytes_def)
  have h2: "map_of [(''Subject'', [''a''])] ''Message-Id'' = (None :: string list option)"
    by simp
  have h3: "ReadMessage io_parsed (AsBytes (map_of (Attrs (listed ''c'' 3)) ''RFC822.HEADER''))
      = Some [(''Subject'', [''c''])]"
    by (simp add: input_defs AsBytes_def)
  have h4: "map_of [(''Subject'', [''c''])] ''Message-Id'' = (None :: string list option)"
    by simp
  from missing_message_id_shares_empty_key [OF h1 h2 h3 h4] h1 h2 h3 h4
  show ?thesis by blast
qed

section \<open>The order of shutdown\<close>

lemmas step_defs = step_def orch_step_def deliver_def store_step_def hand_def fetch_step_def reply_def
  store_done_def fetch_done_def

lemma live_append: "live (ws @ [w]) = live ws + (if snd w \<noteq> SDone then 1 else 0)"
  by (simp add: live_def)

lemma live_update:
  "i < length ws \<Longrightarrow>
   live (ws[i := w]) + (if snd (ws ! i) \<noteq> SDone then 1 else 0)
     = live ws + (if snd w \<noteq> SDone then 1 else 0)"
proof (induction ws arbitrary: i)
  case Nil
  then show ?case by simp
next
  case (Cons a ws)
  show ?case
  proof (cases i)
    case 0
    then show ?thesis by (simp add: live_def)
  next
    case (Suc n)
    then have "n < length ws" using Cons.prems by simp
    from Cons.IH [OF this] Suc show ?thesis by (simp add: live_def)
  qed
qed

lemma live_zero: "live ws = 0 \<longleftrightarrow> (\<forall>w \<in> set ws. snd w = SDone)"
  by (auto simp: live_def filter_empty_conv)

lemma live_same:
  assumes "i < length ws" "ws ! i = (d, pc)" "pc \<noteq> SDone" "pc' \<noteq> SDone"
  shows "live (ws[i := (d, pc')]) = live ws"
  using live_update [OF assms(1), of "(d, pc')"] assms by simp

lemma live_done:
  assumes "i < length ws" "ws ! i = (d, pc)" "pc \<noteq> SDone"
  shows "live (ws[i := (d, SDone)]) = live ws - 1 \<and> 0 < live ws"
  using live_update [OF assms(1), of "(d, SDone)"] assms by simp

lemma orch_step_wait: "inv_wait s \<Longrightarrow> inv_wait (orch_step io s)"
  by (auto simp: inv_wait_def orch_step_def live_append split: orch_pc.splits sum.splits list.splits option.splits)

lemma deliver_wait: "inv_wait s \<Longrightarrow> inv_wait (deliver i s)"
  by (auto simp: inv_wait_def deliver_def live_same split: orch_pc.splits store_pc.splits prod.splits)

lemma store_step_wait: "inv_wait s \<Longrightarrow> inv_wait (store_step i io s)"
  apply (auto simp: inv_wait_def store_step_def store_done_def live_same live_done
      split: store_pc.splits prod.splits sum.splits step_end.splits)
  done


lemma hand_wait: "inv_wait s \<Longrightarrow> inv_wait (hand i j s)"
  by (auto simp: inv_wait_def hand_def live_same split: store_pc.splits fetch_pc.splits prod.splits)

lemma fetch_step_wait: "inv_wait s \<Longrightarrow> inv_wait (fetch_step j io s)"
  by (auto simp: inv_wait_def fetch_step_def fetch_done_def
      split: fetch_pc.splits prod.splits sum.splits step_end.splits list.splits)

lemma reply_wait: "inv_wait s \<Longrightarrow> inv_wait (reply j i s)"
  by (auto simp: inv_wait_def reply_def live_same split: store_pc.splits fetch_pc.splits prod.splits)

lemma step_wait: "inv_wait s \<Longrightarrow> inv_wait (step a s)"
  by (cases a)
     (simp_all add: step_def orch_step_wait deliver_wait store_step_wait hand_wait
        fetch_step_wait reply_wait)

lemma orch_step_closed: "inv_closed s \<Longrightarrow> inv_closed (orch_step io s)"
  by (auto simp: inv_closed_def orch_step_def nth_append nth_list_update less_Suc_eq
      split: orch_pc.splits sum.splits list.splits option.splits)

lemma deliver_closed: "inv_closed s \<Longrightarrow> inv_closed (deliver i s)"
  by (auto simp: inv_closed_def deliver_def split: orch_pc.splits store_pc.splits prod.splits)

lemma store_step_closed: "inv_closed s \<Longrightarrow> inv_closed (store_step i io s)"
  by (auto simp: inv_closed_def store_step_def store_done_def
      split: store_pc.splits prod.splits sum.splits step_end.splits)

lemma hand_closed: "inv_closed s \<Longrightarrow> inv_closed (hand i j s)"
  by (auto simp: inv_closed_def hand_def split: store_pc.splits fetch_pc.splits prod.splits)

lemma fetch_step_closed: "inv_closed s \<Longrightarrow> inv_closed (fetch_step j io s)"
  by (auto simp: inv_closed_def fetch_step_def fetch_done_def
      split: fetch_pc.splits prod.splits sum.splits step_end.splits list.splits)

lemma reply_closed: "inv_closed s \<Longrightarrow> inv_closed (reply j i s)"
  by (auto simp: inv_closed_def reply_def split: store_pc.splits fetch_pc.splits prod.splits)

lemma step_closed: "inv_closed s \<Longrightarrow> inv_closed (step a s)"
  by (cases a)
     (simp_all add: step_def orch_step_closed deliver_closed store_step_closed hand_closed
        fetch_step_closed reply_closed)


lemma orch_step_delivered: "inv_delivered s \<Longrightarrow> inv_delivered (orch_step io s)"
  by (auto simp: inv_delivered_def orch_step_def nth_append less_Suc_eq
      split: orch_pc.splits sum.splits list.splits option.splits)

lemma deliver_delivered: "inv_delivered s \<Longrightarrow> inv_delivered (deliver i s)"
  by (auto simp: inv_delivered_def deliver_def nth_list_update less_Suc_eq
      split: orch_pc.splits store_pc.splits prod.splits)

lemma store_step_delivered: "inv_delivered s \<Longrightarrow> inv_delivered (store_step i io s)"
  by (auto simp: inv_delivered_def store_step_def store_done_def
      split: store_pc.splits prod.splits sum.splits step_end.splits)

lemma hand_delivered: "inv_delivered s \<Longrightarrow> inv_delivered (hand i j s)"
  by (auto simp: inv_delivered_def hand_def split: store_pc.splits fetch_pc.splits prod.splits)

lemma fetch_step_delivered: "inv_delivered s \<Longrightarrow> inv_delivered (fetch_step j io s)"
  by (auto simp: inv_delivered_def fetch_step_def fetch_done_def
      split: fetch_pc.splits prod.splits sum.splits step_end.splits list.splits)

lemma reply_delivered: "inv_delivered s \<Longrightarrow> inv_delivered (reply j i s)"
  by (auto simp: inv_delivered_def reply_def split: store_pc.splits fetch_pc.splits prod.splits)

lemma step_delivered: "inv_delivered s \<Longrightarrow> inv_delivered (step a s)"
  by (cases a)
     (simp_all add: step_def orch_step_delivered deliver_delivered store_step_delivered
        hand_delivered fetch_step_delivered reply_delivered)

lemma orch_step_started: "inv_started s \<Longrightarrow> inv_started (orch_step io s)"
  by (auto simp: inv_started_def orch_step_def nth_append less_Suc_eq
      split: orch_pc.splits sum.splits list.splits option.splits)

lemma deliver_started: "inv_started s \<Longrightarrow> inv_started (deliver i s)"
  by (auto simp: inv_started_def deliver_def nth_list_update
      split: orch_pc.splits store_pc.splits prod.splits)

lemma store_step_started: "inv_started s \<Longrightarrow> inv_started (store_step i io s)"
  by (auto simp: inv_started_def store_step_def store_done_def nth_list_update
      split: store_pc.splits prod.splits sum.splits step_end.splits)

lemma hand_started: "inv_started s \<Longrightarrow> inv_started (hand i j s)"
  by (auto simp: inv_started_def hand_def nth_list_update split: store_pc.splits fetch_pc.splits prod.splits)

lemma fetch_step_started: "inv_started s \<Longrightarrow> inv_started (fetch_step j io s)"
  by (auto simp: inv_started_def fetch_step_def fetch_done_def
      split: fetch_pc.splits prod.splits sum.splits step_end.splits list.splits)

lemma reply_started: "inv_started s \<Longrightarrow> inv_started (reply j i s)"
  by (auto simp: inv_started_def reply_def nth_list_update split: store_pc.splits fetch_pc.splits prod.splits)

lemma step_started: "inv_started s \<Longrightarrow> inv_started (step a s)"
  by (cases a)
     (simp_all add: step_def orch_step_started deliver_started store_step_started
        hand_started fetch_step_started reply_started)


lemma may_be_closed_over: "may_be_closed pc k \<Longrightarrow> sending_over pc"
  by (cases pc rule: sending_over.cases) simp_all

lemma after_close_wait: "after_close pc \<Longrightarrow> after_wait pc \<and> sending_over pc"
  by (cases pc rule: sending_over.cases) simp_all

lemma sending_over_facts:
  "sending_over pc \<Longrightarrow> expect pc rs k = rs \<and> chans_made n pc = n \<and> started m n pc = n * m"
  by (cases pc rule: sending_over.cases) simp_all

lemma orch_step_crash:
  "inv_closed s \<Longrightarrow> crash s \<noteq> Some SendOnClosedChannel \<Longrightarrow>
   crash (orch_step io s) \<noteq> Some SendOnClosedChannel"
  by (auto simp: inv_closed_def orch_step_def
      split: orch_pc.splits sum.splits list.splits option.splits)

lemma store_step_crash:
  assumes "inv_wait s" "crash s \<noteq> Some SendOnClosedChannel"
  shows "crash (store_step i io s) \<noteq> Some SendOnClosedChannel"
proof -
  have "\<not> fetchRequests_closed s"
    if "i < length (store_workers s)" "store_workers s ! i = (d, SSend c r fr)" for d c r fr
  proof
    assume "fetchRequests_closed s"
    then have "live (store_workers s) = 0"
      using assms(1) after_close_wait [of "orch s"] by (simp add: inv_wait_def)
    then have "snd (store_workers s ! i) = SDone"
      using that(1) by (simp add: live_zero)
    then show False using that(2) by simp
  qed
  then show ?thesis using assms(2)
    by (auto simp: store_step_def store_done_def
        split: store_pc.splits prod.splits sum.splits step_end.splits)
qed

lemma step_crash:
  "inv_wait s \<Longrightarrow> inv_closed s \<Longrightarrow> crash s \<noteq> Some SendOnClosedChannel \<Longrightarrow>
   crash (step a s) \<noteq> Some SendOnClosedChannel"
  by (cases a)
     (auto simp: step_def orch_step_crash store_step_crash deliver_def hand_def reply_def
        fetch_step_def fetch_done_def
        split: orch_pc.splits store_pc.splits fetch_pc.splits prod.splits sum.splits
          step_end.splits list.splits)

lemma invariant_init: "invariant (init source ds n)"
  by (simp add: invariant_def init_def inv_wait_def inv_closed_def inv_delivered_def
      inv_started_def live_def)

lemma invariant_step: "invariant s \<Longrightarrow> invariant (step a s)"
  by (simp add: invariant_def step_wait step_closed step_delivered step_started step_crash)

lemma invariant_run: "invariant s \<Longrightarrow> invariant (run as s)"
  by (induction as arbitrary: s) (simp_all add: invariant_step)

lemma step_params: "MaxImapConns (step a s) = MaxImapConns s \<and> dsts (step a s) = dsts s"
  by (cases a)
     (auto simp: step_defs
        split: orch_pc.splits store_pc.splits fetch_pc.splits prod.splits sum.splits
          step_end.splits list.splits option.splits)

lemma run_params: "MaxImapConns (run as s) = MaxImapConns s \<and> dsts (run as s) = dsts s"
  by (induction as arbitrary: s) (simp_all add: step_params)

lemma run_append: "run (as @ bs) s = run bs (run as s)"
  by (induction as arbitrary: s) simp_all

lemma run_stuck: "(\<And>a. step a s = s) \<Longrightarrow> run as s = s"
  by (induction as) simp_all

lemmas run_defs =
  startup_def serve_one_def sched_ok_def sched_dst_refuses_def init_def
  io_ok_def io_fetch_fails_def io_dst_refuses_def io_cache_empty_def
  storeRequest_of_def AsBytes_def Header_Get_def

text \<open>
  C4. In every state that a run of \<^verbatim>\<open>SearchAndStore\<close> reaches, under every schedule and
  every answer of the outside world: if some work queue is closed then
  \<^verbatim>\<open>SearchAndStore\<close> is past its sending loop, a queue exists for every destination and
  every queue has delivered every request built, in the order built; if
  \<^verbatim>\<open>fetchRequests\<close> is closed then the counter of the store workers is zero, all
  \<^verbatim>\<open>MaxImapConns\<close> store workers of every destination were started and every one of them
  has run its \<^verbatim>\<open>wg.Done()\<close>; and no goroutine has panicked on a send on a closed channel.
\<close>

theorem shutdown_order:
  assumes "s = run as (init source ds n)"
  shows "(\<forall>k < length (storeRequests_closed s). storeRequests_closed s ! k \<longrightarrow>
            sending_over (orch s) \<and> length (delivered s) = length ds
            \<and> (\<forall>k' < length (delivered s). delivered s ! k' = built s))
       \<and> (fetchRequests_closed s \<longrightarrow>
            storers s = 0 \<and> length (store_workers s) = length ds * n
            \<and> (\<forall>w \<in> set (store_workers s). snd w = SDone))
       \<and> crash s \<noteq> Some SendOnClosedChannel"
proof -
  have inv: "invariant s"
    using assms invariant_run [OF invariant_init] by simp
  have par: "MaxImapConns s = n" "dsts s = ds"
    using assms run_params [of as "init source ds n"] by (simp_all add: init_def)
  have a: "sending_over (orch s) \<and> length (delivered s) = length ds
            \<and> (\<forall>k' < length (delivered s). delivered s ! k' = built s)"
    if "k < length (storeRequests_closed s)" "storeRequests_closed s ! k" for k
  proof -
    have over: "sending_over (orch s)"
      using inv that may_be_closed_over by (auto simp: invariant_def inv_closed_def)
    then show ?thesis
      using inv par sending_over_facts [OF over]
      by (simp add: invariant_def inv_delivered_def inv_started_def)
  qed
  have b: "storers s = 0 \<and> length (store_workers s) = length ds * n
            \<and> (\<forall>w \<in> set (store_workers s). snd w = SDone)"
    if "fetchRequests_closed s"
  proof -
    have ac: "after_close (orch s)"
      using inv that by (simp add: invariant_def inv_wait_def)
    then have over: "sending_over (orch s)" and aw: "after_wait (orch s)"
      using after_close_wait by blast+
    have z: "storers s = 0" "live (store_workers s) = 0"
      using inv aw by (simp_all add: invariant_def inv_wait_def)
    then show ?thesis
      using inv par sending_over_facts [OF over] live_zero [of "store_workers s"]
      by (simp add: invariant_def inv_started_def)
  qed
  from a b inv show ?thesis by (simp add: invariant_def)
qed

theorem shutdown_order_witness:
  "fetchRequests_closed (run sched_ok (init ''src'' [''dst''] 1))
   \<and> storeRequests_closed (run sched_ok (init ''src'' [''dst''] 1)) = [True]
   \<and> store_workers (run sched_ok (init ''src'' [''dst''] 1)) = [(0, SDone)]
   \<and> delivered (run sched_ok (init ''src'' [''dst''] 1)) = [[work1]]
   \<and> built (run sched_ok (init ''src'' [''dst''] 1)) = [work1]
   \<and> orch (run sched_ok (init ''src'' [''dst''] 1)) = Returned None"
  using shutdown_order [of "run sched_ok (init ''src'' [''dst''] 1)" sched_ok "''src''" "[''dst'']" 1]
  by (simp add: run_defs step_defs input_defs store_defs fetch_defs)

section \<open>Runs that do not return\<close>

lemma run_fetch_fails: "run (serve_one io_fetch_fails) (init ''src'' [''dst''] 1) = stuck_at_wait"
  by (simp add: run_defs step_defs input_defs store_defs fetch_defs stuck_at_wait_def)

lemma run_dst_refuses: "run sched_dst_refuses (init ''src'' [''dst''] 1) = stuck_at_send"
  by (simp add: run_defs step_defs input_defs stuck_at_send_def)

lemma run_cache_empty: "run (serve_one io_cache_empty) (init ''src'' [''dst''] 1) = crashed"
  by (simp add: run_defs step_defs input_defs store_defs fetch_defs crashed_def)

lemma stuck_at_wait_step: "step a stuck_at_wait = stuck_at_wait"
  by (cases a) (auto simp: stuck_at_wait_def step_defs split: nat.splits)

lemma stuck_at_send_step: "step a stuck_at_send = stuck_at_send"
  by (cases a) (auto simp: stuck_at_send_def step_defs split: nat.splits)

lemma crashed_step: "step a crashed = crashed"
  by (simp add: step_def crashed_def)

text \<open>
  C5. The claim: after a successful listing every failure is logged only and
  \<^verbatim>\<open>SearchAndStore\<close> returns nil. With one source message that the destination lacks,
  three runs in which the listing succeeds and \<^verbatim>\<open>SearchAndStore\<close> never returns,
  whatever is scheduled afterwards. When the fetch from the source fails, the store
  worker waits at line 108 for a response that is never sent, and \<^verbatim>\<open>SearchAndStore\<close>
  stays in \<^verbatim>\<open>storers.Wait()\<close>. When no connection to the destination can be opened, the
  store worker has left and \<^verbatim>\<open>SearchAndStore\<close> stays in the send of line 57. When the
  cache holds no entry, the fetch worker panics and the program ends.
\<close>

theorem failures_after_listing_block_the_run:
  "(\<forall>as. run (serve_one io_fetch_fails @ as) (init ''src'' [''dst''] 1) = stuck_at_wait)
   \<and> orch stuck_at_wait = WaitStorers
   \<and> (\<forall>as. run (sched_dst_refuses @ as) (init ''src'' [''dst''] 1) = stuck_at_send)
   \<and> orch stuck_at_send = SendTo work1 0 []
   \<and> (\<forall>as. run (serve_one io_cache_empty @ as) (init ''src'' [''dst''] 1) = crashed)
   \<and> orch crashed = WaitStorers \<and> crash crashed = Some NilDereference"
proof -
  have a: "run (serve_one io_fetch_fails @ as) (init ''src'' [''dst''] 1) = stuck_at_wait" for as
    unfolding run_append run_fetch_fails by (rule run_stuck) (rule stuck_at_wait_step)
  have b: "run (sched_dst_refuses @ as) (init ''src'' [''dst''] 1) = stuck_at_send" for as
    unfolding run_append run_dst_refuses by (rule run_stuck) (rule stuck_at_send_step)
  have c: "run (serve_one io_cache_empty @ as) (init ''src'' [''dst''] 1) = crashed" for as
    unfolding run_append run_cache_empty by (rule run_stuck) (rule crashed_step)
  have d: "orch stuck_at_wait = WaitStorers" "orch stuck_at_send = SendTo work1 0 []"
    "orch crashed = WaitStorers" "crash crashed = Some NilDereference"
    by (simp_all add: stuck_at_wait_def stuck_at_send_def crashed_def)
  from a b c d show ?thesis by blast
qed

end
